theory Spec2Isabelle
  imports Main "HOL-Library.Word"
begin

section \<open>node-freefare: native binding and promise wrappers\<close>

text \<open>
  The repository binds libnfc and libfreefare to JavaScript. The C++ side runs every
  hardware call in an \<^verbatim>\<open>AsyncWorker\<close> (\<^verbatim>\<open>Execute\<close> on a worker thread, then
  \<^verbatim>\<open>HandleOKCallback\<close> handing the values to a JavaScript callback); the JavaScript side
  wraps each native method in a promise. The model follows the two layers: a worker is a
  function from the arguments of its constructor to the arguments its callback receives,
  and a wrapper is a function from its JavaScript arguments to the outcome the caller
  observes.
\<close>

type_synonym u8 = "8 word"

subsection \<open>common.h: the error numbering\<close>

definition NFF_ERROR_OPEN_DEVICE :: int where "NFF_ERROR_OPEN_DEVICE = 11"
definition NFF_ERROR_INIT_LIBNFC :: int where "NFF_ERROR_INIT_LIBNFC = 10"

definition NFF_ERROR_LIBNFC_UNKNOWN :: int where "NFF_ERROR_LIBNFC_UNKNOWN = 100"
definition NFF_ERROR_LIBNFC_EIO :: int where "NFF_ERROR_LIBNFC_EIO = 101"
definition NFF_ERROR_LIBNFC_EINVARG :: int where "NFF_ERROR_LIBNFC_EINVARG = 102"
definition NFF_ERROR_LIBNFC_EDEVNOTSUPP :: int where "NFF_ERROR_LIBNFC_EDEVNOTSUPP = 103"
definition NFF_ERROR_LIBNFC_ENOTSUCHDEV :: int where "NFF_ERROR_LIBNFC_ENOTSUCHDEV = 104"
definition NFF_ERROR_LIBNFC_EOVFLOW :: int where "NFF_ERROR_LIBNFC_EOVFLOW = 105"
definition NFF_ERROR_LIBNFC_ETIMEOUT :: int where "NFF_ERROR_LIBNFC_ETIMEOUT = 106"
definition NFF_ERROR_LIBNFC_EOPABORTED :: int where "NFF_ERROR_LIBNFC_EOPABORTED = 107"
definition NFF_ERROR_LIBNFC_ENOTIMPL :: int where "NFF_ERROR_LIBNFC_ENOTIMPL = 108"
definition NFF_ERROR_LIBNFC_ETGRELEASED :: int where "NFF_ERROR_LIBNFC_ETGRELEASED = 109"
definition NFF_ERROR_LIBNFC_ERFTRANS :: int where "NFF_ERROR_LIBNFC_ERFTRANS = 110"
definition NFF_ERROR_LIBNFC_EMFCAUTHFAIL :: int where "NFF_ERROR_LIBNFC_EMFCAUTHFAIL = 111"
definition NFF_ERROR_LIBNFC_ESOFT :: int where "NFF_ERROR_LIBNFC_ESOFT = 112"
definition NFF_ERROR_LIBNFC_ECHIP :: int where "NFF_ERROR_LIBNFC_ECHIP = 113"

text \<open>
  The native codes \<^verbatim>\<open>NFC_EIO\<close>, ... are macros of libnfc's \<^verbatim>\<open>nfc/nfc.h\<close>, which is
  not part of the repository. The macro \<^verbatim>\<open>LIBNFC_ERROR_TO_NFF\<close> is modelled for any
  values of them: they are the fields of a record the macro takes.
\<close>

record nfc_errors =
  NFC_EIO :: int
  NFC_EINVARG :: int
  NFC_EDEVNOTSUPP :: int
  NFC_ENOTSUCHDEV :: int
  NFC_EOVFLOW :: int
  NFC_ETIMEOUT :: int
  NFC_EOPABORTED :: int
  NFC_ENOTIMPL :: int
  NFC_ETGRELEASED :: int
  NFC_ERFTRANS :: int
  NFC_EMFCAUTHFAIL :: int
  NFC_ESOFT :: int
  NFC_ECHIP :: int

definition LIBNFC_ERROR_TO_NFF :: "nfc_errors \<Rightarrow> int \<Rightarrow> int" where
  "LIBNFC_ERROR_TO_NFF nfc error =
    (if error = NFC_EIO nfc then NFF_ERROR_LIBNFC_EIO
     else if error = NFC_EINVARG nfc then NFF_ERROR_LIBNFC_EINVARG
     else if error = NFC_EDEVNOTSUPP nfc then NFF_ERROR_LIBNFC_EDEVNOTSUPP
     else if error = NFC_ENOTSUCHDEV nfc then NFF_ERROR_LIBNFC_ENOTSUCHDEV
     else if error = NFC_EOVFLOW nfc then NFF_ERROR_LIBNFC_EOVFLOW
     else if error = NFC_ETIMEOUT nfc then NFF_ERROR_LIBNFC_ETIMEOUT
     else if error = NFC_EOPABORTED nfc then NFF_ERROR_LIBNFC_EOPABORTED
     else if error = NFC_ENOTIMPL nfc then NFF_ERROR_LIBNFC_ENOTIMPL
     else if error = NFC_ETGRELEASED nfc then NFF_ERROR_LIBNFC_ETGRELEASED
     else if error = NFC_ERFTRANS nfc then NFF_ERROR_LIBNFC_ERFTRANS
     else if error = NFC_EMFCAUTHFAIL nfc then NFF_ERROR_LIBNFC_EMFCAUTHFAIL
     else if error = NFC_ESOFT nfc then NFF_ERROR_LIBNFC_ESOFT
     else if error = NFC_ECHIP nfc then NFF_ERROR_LIBNFC_ECHIP
     else NFF_ERROR_LIBNFC_UNKNOWN)"

text \<open>The native codes the macro tests, in the order it tests them.\<close>

definition mapped_codes :: "nfc_errors \<Rightarrow> int list" where
  "mapped_codes nfc =
    [NFC_EIO nfc, NFC_EINVARG nfc, NFC_EDEVNOTSUPP nfc, NFC_ENOTSUCHDEV nfc, NFC_EOVFLOW nfc,
     NFC_ETIMEOUT nfc, NFC_EOPABORTED nfc, NFC_ENOTIMPL nfc, NFC_ETGRELEASED nfc,
     NFC_ERFTRANS nfc, NFC_EMFCAUTHFAIL nfc, NFC_ESOFT nfc, NFC_ECHIP nfc]"

text \<open>
  The members of the taxonomy, in the spec's order: IOError, InvalidArgument,
  DeviceNotSupported, NoSuchDevice, Overflow, Timeout, OperationAborted, NotImplemented,
  TagReleased, RFTransmissionError, AuthenticationFailed, SoftError, ChipError, Unknown.
\<close>

definition taxonomy :: "int list" where
  "taxonomy =
    [NFF_ERROR_LIBNFC_EIO, NFF_ERROR_LIBNFC_EINVARG, NFF_ERROR_LIBNFC_EDEVNOTSUPP,
     NFF_ERROR_LIBNFC_ENOTSUCHDEV, NFF_ERROR_LIBNFC_EOVFLOW, NFF_ERROR_LIBNFC_ETIMEOUT,
     NFF_ERROR_LIBNFC_EOPABORTED, NFF_ERROR_LIBNFC_ENOTIMPL, NFF_ERROR_LIBNFC_ETGRELEASED,
     NFF_ERROR_LIBNFC_ERFTRANS, NFF_ERROR_LIBNFC_EMFCAUTHFAIL, NFF_ERROR_LIBNFC_ESOFT,
     NFF_ERROR_LIBNFC_ECHIP, NFF_ERROR_LIBNFC_UNKNOWN]"

text \<open>
  The values libnfc 1.7 gives the native codes, for running the macro on a concrete
  input; no theorem about the macro depends on them.
\<close>

definition libnfc_1_7 :: nfc_errors where
  "libnfc_1_7 =
    \<lparr>NFC_EIO = -1, NFC_EINVARG = -2, NFC_EDEVNOTSUPP = -3, NFC_ENOTSUCHDEV = -4,
     NFC_EOVFLOW = -5, NFC_ETIMEOUT = -6, NFC_EOPABORTED = -7, NFC_ENOTIMPL = -8,
     NFC_ETGRELEASED = -10, NFC_ERFTRANS = -20, NFC_EMFCAUTHFAIL = -30, NFC_ESOFT = -80,
     NFC_ECHIP = -90\<rparr>"

subsection \<open>JavaScript values, exceptions and promises\<close>

text \<open>
  The first argument of every callback is \<^verbatim>\<open>Null()\<close> or \<^verbatim>\<open>New<v8::Number>(error)\<close>.
  \<^verbatim>\<open>if(error)\<close> takes the branch for a number other than 0.
\<close>

datatype v8_value = Null | Number int

fun truthy :: "v8_value \<Rightarrow> bool" where
  "truthy Null = False"
| "truthy (Number n) = (n \<noteq> 0)"

text \<open>String concatenation with a number prints it in decimal.\<close>

definition digit :: "nat \<Rightarrow> char" where
  "digit d = ''0123456789'' ! d"

function digits :: "nat \<Rightarrow> string" where
  "digits n = (if n < 10 then [digit n] else digits (n div 10) @ [digit (n mod 10)])"
  by pat_completeness auto
termination
  by (relation "measure id") auto

fun to_string :: "v8_value \<Rightarrow> string" where
  "to_string Null = ''null''"
| "to_string (Number n) = (if n < 0 then ''-'' @ digits (nat (- n)) else digits (nat n))"

datatype js_exception = Error string | AssertionError string | TypeError string

text \<open>
  A promise's executor calls \<^verbatim>\<open>resolve\<close> and \<^verbatim>\<open>reject\<close>; the first call settles the
  promise and later calls do nothing. An executor that calls neither leaves it pending.
\<close>

datatype 'a settlement = resolve 'a | reject js_exception

datatype 'a completion = Pending | Resolved 'a | Rejected js_exception

fun settle :: "'a settlement list \<Rightarrow> 'a completion" where
  "settle [] = Pending"
| "settle (resolve v # _) = Resolved v"
| "settle (reject e # _) = Rejected e"

text \<open>
  What the caller of a wrapper observes: an exception thrown by the call itself, or the
  value it returns (for an asynchronous operation, the promise and how it settles), or,
  when native code reads through a null pointer, the fault that ends the process.
\<close>

datatype 'a outcome = Thrown js_exception | Returned 'a | Fault

text \<open>
  The callback every tag wrapper passes to its native method:
  \<^verbatim>\<open>(error, result) => { if(error) { switch (error) { default:
     reject(new Error('Unknown error (' + error + ')')); } } resolve(result); }\<close>
\<close>

definition unknown_error :: "v8_value \<Rightarrow> js_exception" where
  "unknown_error error = Error (''Unknown error ('' @ to_string error @ '')'')"

definition callback :: "v8_value \<Rightarrow> 'a \<Rightarrow> 'a settlement list" where
  "callback error result =
    (if truthy error then [reject (unknown_error error)] else []) @ [resolve result]"

text \<open>
  The callback of \<^verbatim>\<open>Device.open\<close> and \<^verbatim>\<open>Device.close\<close>: the case
  \<^verbatim>\<open>ERROR_OPEN_DEVICE\<close> has no \<^verbatim>\<open>break\<close> and falls through to the default.
\<close>

definition ERROR_OPEN_DEVICE :: int where "ERROR_OPEN_DEVICE = 11"
definition ERROR_INIT_LIBNFC :: int where "ERROR_INIT_LIBNFC = 10"

definition open_callback :: "v8_value \<Rightarrow> unit settlement list" where
  "open_callback error =
    (if truthy error then
       (if error = Number ERROR_OPEN_DEVICE
        then [reject (Error ''LibNFC failed to open the device''), reject (unknown_error error)]
        else [reject (unknown_error error)])
     else []) @ [resolve ()]"

text \<open>
  A method call on the wrapped native object finds the method among those the class's
  \<^verbatim>\<open>Init\<close> put on the prototype; calling a property that is not there throws a
  TypeError (carrying the property's name here), which inside a promise's executor rejects
  the promise.
\<close>

definition has_method :: "string list \<Rightarrow> string \<Rightarrow> bool" where
  "has_method prototype name = (name \<in> set prototype)"

definition not_a_function :: "string \<Rightarrow> js_exception" where
  "not_a_function name = TypeError (name @ '' is not a function'')"

subsection \<open>tag.cpp: the native tag object\<close>

text \<open>
  Modelled from the spec: the type \<^verbatim>\<open>mifare_tag_type\<close> of libfreefare, whose declaration
  is not in the repository. The spec's family tags are simple-memory (\<open>ULTRALIGHT\<close>),
  classic-1k, classic-4k, file-oriented (\<open>DESFIRE\<close>), extended-memory (\<open>NTAG_21x\<close>) and
  unknown; \<open>ULTRALIGHT_C\<close> is the fifth enumerator \<^verbatim>\<open>Tag::GetTagType\<close> names.
\<close>

datatype mifare_tag_type =
  ULTRALIGHT | ULTRALIGHT_C | CLASSIC_1K | CLASSIC_4K | DESFIRE | NTAG_21x | UNKNOWN_TAG

text \<open>
  A native tag handle, as far as the binding reads it: what \<^verbatim>\<open>freefare_get_tag_type\<close>,
  \<^verbatim>\<open>freefare_get_tag_friendly_name\<close> and \<^verbatim>\<open>freefare_get_tag_uid\<close> return for it.
\<close>

record MifareTag =
  freefare_get_tag_type :: mifare_tag_type
  freefare_get_tag_friendly_name :: string
  freefare_get_tag_uid :: string

definition GetTagType :: "MifareTag \<Rightarrow> string" where
  "GetTagType tag =
    (case freefare_get_tag_type tag of
       CLASSIC_1K \<Rightarrow> ''MIFARE_CLASSIC_1K''
     | CLASSIC_4K \<Rightarrow> ''MIFARE_CLASSIC_4K''
     | DESFIRE \<Rightarrow> ''MIFARE_DESFIRE''
     | ULTRALIGHT \<Rightarrow> ''MIFARE_ULTRALIGHT''
     | ULTRALIGHT_C \<Rightarrow> ''MIFARE_ULTRALIGHT_C''
     | _ \<Rightarrow> ''Unknown'')"

definition GetTagFriendlyName :: "MifareTag \<Rightarrow> string" where
  "GetTagFriendlyName tag = freefare_get_tag_friendly_name tag"

definition GetTagUID :: "MifareTag \<Rightarrow> string" where
  "GetTagUID tag = freefare_get_tag_uid tag"

text \<open>The methods \<^verbatim>\<open>Tag::Init\<close> puts on the prototype.\<close>

definition Tag_Init :: "string list" where
  "Tag_Init =
    [''getTagType'', ''getTagFriendlyName'', ''getTagUID'',
     ''mifareUltralight_connect'', ''mifareUltralight_disconnect'', ''mifareUltralight_read'',
     ''mifareUltralight_write'',
     ''mifareClassic_connect'', ''mifareClassic_disconnect'', ''mifareClassic_authenticate'',
     ''mifareClassic_read'', ''mifareClassic_initValue'', ''mifareClassic_readValue'',
     ''mifareClassic_write'', ''mifareClassic_increment'', ''mifareClassic_decrement'',
     ''mifareClassic_restore'', ''mifareClassic_transfer'',
     ''mifareDesfire_connect'', ''mifareDesfire_disconnect'', ''mifareDesfire_authenticate_des'',
     ''mifareDesfire_authenticate_3des'', ''mifareDesfire_getApplicationIds'',
     ''mifareDesfire_selectApplication'', ''mifareDesfire_getFileIds'', ''mifareDesfire_write'',
     ''mifareDesfire_read'']"

subsection \<open>device.cpp: the native device object and its workers\<close>

text \<open>
  \<^verbatim>\<open>nfc_device *device\<close> is \<open>None\<close> for \<^verbatim>\<open>NULL\<close> and \<open>Some a\<close> for the address
  \<open>a\<close> of a device \<^verbatim>\<open>nfc_open\<close> returned.
\<close>

type_synonym nfc_device = "nat option"

record Device =
  connstring :: string
  device :: nfc_device

text \<open>The methods \<^verbatim>\<open>Device::Init\<close> puts on the prototype.\<close>

definition Device_Init :: "string list" where
  "Device_Init = [''open'', ''listTags'', ''getConnstring'', ''abort'']"

text \<open>
  The functions of libnfc and libfreefare the workers call, as parameters:
  \<^verbatim>\<open>nfc_open\<close> gives a device or \<^verbatim>\<open>NULL\<close>, \<^verbatim>\<open>nfc_abort_command\<close> a native code,
  \<^verbatim>\<open>freefare_get_tags\<close> the tags of the array it returns, up to the terminating
  \<^verbatim>\<open>NULL\<close>, or \<open>None\<close> when it returns \<^verbatim>\<open>NULL\<close> for the array.
\<close>

record driver =
  nfc_open :: "string \<Rightarrow> nfc_device"
  nfc_abort_command :: "nfc_device \<Rightarrow> int"
  freefare_get_tags :: "nfc_device \<Rightarrow> MifareTag list option"

text \<open>The native calls an operation makes, in order.\<close>

datatype native_call =
  Call_nfc_open string
| Call_nfc_close nfc_device
| Call_freefare_get_tags nfc_device
| Call_nfc_abort_command nfc_device
| Call_mifareUltralight_read int
| Call_mifareUltralight_write int "u8 list"

text \<open>
  A worker: \<^verbatim>\<open>Execute\<close>, then \<^verbatim>\<open>HandleOKCallback\<close>. The result is the object after the
  worker ran, the native calls made and the arguments of the callback.
\<close>

definition OpenWorker :: "driver \<Rightarrow> Device \<Rightarrow> Device \<times> native_call list \<times> v8_value" where
  "OpenWorker drv obj =
    (let obj = obj\<lparr>device := nfc_open drv (connstring obj)\<rparr>;
         err = (if device obj = None then Number NFF_ERROR_OPEN_DEVICE else Null)
     in (obj, [Call_nfc_open (connstring obj)], err))"

definition CloseWorker :: "Device \<Rightarrow> Device \<times> native_call list \<times> v8_value" where
  "CloseWorker obj = (obj, [Call_nfc_close (device obj)], Null)"

text \<open>
  \<^verbatim>\<open>ListTagsWorker\<close> counts the tags by reading \<^verbatim>\<open>tags[count]\<close> without testing
  \<^verbatim>\<open>tags\<close>: for a \<^verbatim>\<open>NULL\<close> array it reads through the null pointer and has no
  result.
\<close>

definition ListTagsWorker ::
    "driver \<Rightarrow> Device \<Rightarrow> (Device \<times> native_call list \<times> v8_value \<times> MifareTag list) option" where
  "ListTagsWorker drv obj =
    (case freefare_get_tags drv (device obj) of
       None \<Rightarrow> None
     | Some tags \<Rightarrow>
         (let err = Null;
              count = length tags;
              results = map (\<lambda>i. tags ! i) [0..<count]
          in Some (obj, [Call_freefare_get_tags (device obj)], err, results)))"

text \<open>
  \<^verbatim>\<open>AbortWorker\<close> hands its callback the one value of \<^verbatim>\<open>argv\<close>, the native code (it
  announces two arguments; the JavaScript callback reads the first only).
\<close>

definition AbortWorker :: "driver \<Rightarrow> Device \<Rightarrow> Device \<times> native_call list \<times> v8_value" where
  "AbortWorker drv obj =
    (let error = nfc_abort_command drv (device obj)
     in (obj, [Call_nfc_abort_command (device obj)], Number error))"

subsection \<open>tag_ntag21x.cpp: the workers of the extended paged tag\<close>

text \<open>
  Modelled from the spec: the type \<^verbatim>\<open>ntag_tag_subtype\<close> of libfreefare, whose declaration
  is not in the repository; \<^verbatim>\<open>getSubType\<close> discriminates the capacity variants 213, 215
  and 216, and \<open>NTAG_UNKNOWN\<close> stands for every other value.
\<close>

datatype ntag_tag_subtype = NTAG_UNKNOWN | NTAG_213 | NTAG_215 | NTAG_216

text \<open>
  The functions of libfreefare the workers call, as parameters. A read returns its native
  code and the bytes it stored, starting at \<^verbatim>\<open>data[0]\<close>.
\<close>

record 'tag freefare =
  ntag21x_connect :: "'tag \<Rightarrow> int"
  ntag21x_disconnect :: "'tag \<Rightarrow> int"
  ntag21x_read4 :: "'tag \<Rightarrow> u8 \<Rightarrow> int \<times> u8 list"
  ntag21x_fast_read :: "'tag \<Rightarrow> u8 \<Rightarrow> u8 \<Rightarrow> int \<times> u8 list"
  ntag21x_write :: "'tag \<Rightarrow> u8 \<Rightarrow> u8 list \<Rightarrow> int"
  ntag21x_get_subtype :: "'tag \<Rightarrow> ntag_tag_subtype"

text \<open>
  Buffers. A fresh block of \<open>n\<close> bytes holds whatever the memory \<open>mem\<close> held; a
  native read overwrites it from its first byte, within the block;
  \<^verbatim>\<open>Nan::CopyBuffer(data, n)\<close> hands the first \<open>n\<close> bytes to JavaScript.
\<close>

definition malloc :: "(nat \<Rightarrow> u8) \<Rightarrow> nat \<Rightarrow> u8 list" where
  "malloc mem n = map mem [0..<n]"

definition store :: "u8 list \<Rightarrow> u8 list \<Rightarrow> u8 list" where
  "store block bytes = take (length block) (bytes @ drop (length bytes) block)"

definition CopyBuffer :: "u8 list \<Rightarrow> nat \<Rightarrow> u8 list" where
  "CopyBuffer block n = take n block"

text \<open>\<^verbatim>\<open>ntag21x_readWorker\<close>: the page goes into the member \<^verbatim>\<open>uint8_t data[4]\<close>.\<close>

definition ntag21x_readWorker ::
    "'tag freefare \<Rightarrow> (nat \<Rightarrow> u8) \<Rightarrow> 'tag \<Rightarrow> u8 \<Rightarrow> v8_value \<times> u8 list" where
  "ntag21x_readWorker lib mem tag page =
    (let data = malloc mem 4;
         (error, bytes) = ntag21x_read4 lib tag page;
         data = store data bytes
     in (Number error, CopyBuffer data 4))"

text \<open>
  \<^verbatim>\<open>ntag21x_fastReadWorker::Execute\<close>: the fields \<^verbatim>\<open>end_page\<close>, \<^verbatim>\<open>length\<close>,
  \<^verbatim>\<open>data\<close> and \<^verbatim>\<open>error\<close> after it ran. \<^verbatim>\<open>end_page - start_page + 1\<close> is computed
  on \<^verbatim>\<open>int\<close>.
\<close>

definition ntag21x_fastReadWorker_Execute ::
    "'tag freefare \<Rightarrow> (nat \<Rightarrow> u8) \<Rightarrow> 'tag \<Rightarrow> u8 \<Rightarrow> u8 \<Rightarrow> u8 \<times> nat \<times> u8 list \<times> int" where
  "ntag21x_fastReadWorker_Execute lib mem tag start_page end_page =
    (let end_page = (if start_page > end_page then start_page else end_page);
         no_pages = uint end_page - uint start_page + 1;
         length' = nat (no_pages * 4);
         data = malloc mem length';
         (error, bytes) = ntag21x_fast_read lib tag start_page end_page;
         data = store data bytes
     in (end_page, length', data, error))"

definition ntag21x_fastReadWorker ::
    "'tag freefare \<Rightarrow> (nat \<Rightarrow> u8) \<Rightarrow> 'tag \<Rightarrow> u8 \<Rightarrow> u8 \<Rightarrow> v8_value \<times> u8 list" where
  "ntag21x_fastReadWorker lib mem tag start_page end_page =
    (let (end_page, length', data, error) =
           ntag21x_fastReadWorker_Execute lib mem tag start_page end_page
     in (Number error, CopyBuffer data length'))"

text \<open>
  \<^verbatim>\<open>ntag21x_getSubTypeWorker\<close>: \<^verbatim>\<open>error\<close> is set to 0 by the constructor and
  \<^verbatim>\<open>Execute\<close> does not assign it.
\<close>

definition ntag21x_getSubTypeWorker :: "'tag freefare \<Rightarrow> 'tag \<Rightarrow> v8_value \<times> v8_value" where
  "ntag21x_getSubTypeWorker lib tag =
    (let error = 0;
         st = ntag21x_get_subtype lib tag;
         subtype = (case st of NTAG_213 \<Rightarrow> 213 | NTAG_215 \<Rightarrow> 215 | NTAG_216 \<Rightarrow> 216 | _ \<Rightarrow> 0)
     in (Number error, Number subtype))"

text \<open>
  \<^verbatim>\<open>ntag21x_connectWorker\<close> (which also calls \<^verbatim>\<open>ntag21x_get_info\<close> and drops what it
  returns), \<^verbatim>\<open>ntag21x_disconnectWorker\<close> and \<^verbatim>\<open>ntag21x_writeWorker\<close> hand their
  callback the native code.
\<close>

definition ntag21x_connectWorker :: "'tag freefare \<Rightarrow> 'tag \<Rightarrow> v8_value" where
  "ntag21x_connectWorker lib tag = (let error = ntag21x_connect lib tag in Number error)"

definition ntag21x_disconnectWorker :: "'tag freefare \<Rightarrow> 'tag \<Rightarrow> v8_value" where
  "ntag21x_disconnectWorker lib tag = (let error = ntag21x_disconnect lib tag in Number error)"

definition ntag21x_writeWorker :: "'tag freefare \<Rightarrow> 'tag \<Rightarrow> u8 \<Rightarrow> u8 list \<Rightarrow> v8_value" where
  "ntag21x_writeWorker lib tag page data =
    (let error = ntag21x_write lib tag page data in Number error)"

subsection \<open>The JavaScript wrappers\<close>

text \<open>
  \<^verbatim>\<open>new Freefare()\<close>: \<open>error\<close> is what the native \<^verbatim>\<open>init()\<close> returned.
\<close>

definition Freefare_constructor :: "int \<Rightarrow> unit outcome" where
  "Freefare_constructor error =
    (if error = ERROR_INIT_LIBNFC then Thrown (Error ''Could not initiate LibNFC'')
     else if error \<noteq> 0 then Thrown (Error ''Unknown error during LibNFC initialization'')
     else Returned ())"

text \<open>
  The wrappers of \<^verbatim>\<open>class Device\<close>. Each returns the native object after the
  operation, the native calls made and what the caller observes.
\<close>

definition Device_open ::
    "driver \<Rightarrow> Device \<Rightarrow> Device \<times> native_call list \<times> unit completion outcome" where
  "Device_open drv obj =
    (if has_method Device_Init ''open'' then
       (let (obj, calls, error) = OpenWorker drv obj
        in (obj, calls, Returned (settle (open_callback error))))
     else (obj, [], Returned (Rejected (not_a_function ''open''))))"

definition Device_close ::
    "Device \<Rightarrow> Device \<times> native_call list \<times> unit completion outcome" where
  "Device_close obj =
    (if has_method Device_Init ''close'' then
       (let (obj, calls, error) = CloseWorker obj
        in (obj, calls, Returned (settle (open_callback error))))
     else (obj, [], Returned (Rejected (not_a_function ''close''))))"

definition Device_abort ::
    "driver \<Rightarrow> Device \<Rightarrow> Device \<times> native_call list \<times> unit completion outcome" where
  "Device_abort drv obj =
    (if has_method Device_Init ''abort'' then
       (let (obj, calls, error) = AbortWorker drv obj
        in (obj, calls, Returned (settle (callback error ()))))
     else (obj, [], Returned (Rejected (not_a_function ''abort''))))"

text \<open>
  The classes a tag is wrapped in, and the methods each exposes (its own and those it
  inherits from \<^verbatim>\<open>Tag\<close>).
\<close>

datatype js_tag =
  Tag MifareTag
| MifareUltralightTag MifareTag
| MifareClassicTag MifareTag
| MifareDesfireTag MifareTag
| NTag21xTag MifareTag

definition Tag_methods :: "string list" where
  "Tag_methods = [''getType'', ''getFriendlyName'', ''getUID'']"

fun methods :: "js_tag \<Rightarrow> string list" where
  "methods (Tag _) = Tag_methods"
| "methods (MifareUltralightTag _) = Tag_methods @ [''open'', ''close'', ''read'', ''write'']"
| "methods (MifareClassicTag _) =
     Tag_methods @ [''open'', ''close'', ''authenticate'', ''read'', ''write'', ''initValue'',
       ''readValue'', ''incrementValue'', ''decrementValue'', ''restoreValue'',
       ''transferValue'']"
| "methods (MifareDesfireTag _) =
     Tag_methods @ [''open'', ''close'', ''authenticateDES'', ''authenticate3DES'',
       ''getApplicationIds'', ''selectApplication'', ''getFileIds'', ''read'', ''write'']"
| "methods (NTag21xTag _) =
     Tag_methods @ [''open'', ''close'', ''read'', ''fastRead'', ''write'', ''getSubType'']"

text \<open>The \<^verbatim>\<open>switch\<close> of \<^verbatim>\<open>Device.listTags\<close> on the string \<^verbatim>\<open>getTagType()\<close> returns.\<close>

definition tag_class :: "string \<Rightarrow> MifareTag \<Rightarrow> js_tag" where
  "tag_class type cppTag =
    (if type = ''MIFARE_CLASSIC_1K'' \<or> type = ''MIFARE_CLASSIC_4K'' then MifareClassicTag cppTag
     else if type = ''MIFARE_DESFIRE'' then MifareDesfireTag cppTag
     else if type = ''MIFARE_ULTRALIGHT'' then MifareUltralightTag cppTag
     else if type = ''NTAG_21x'' then NTag21xTag cppTag
     else Tag cppTag)"

definition Device_listTags ::
    "driver \<Rightarrow> Device \<Rightarrow> Device \<times> native_call list \<times> js_tag list completion outcome" where
  "Device_listTags drv obj =
    (if has_method Device_Init ''listTags'' then
       (case ListTagsWorker drv obj of
          None \<Rightarrow> (obj, [Call_freefare_get_tags (device obj)], Fault)
        | Some (obj, calls, error, list) \<Rightarrow>
            (let res = map (\<lambda>cppTag. tag_class (GetTagType cppTag) cppTag) list
             in (obj, calls, Returned (settle (callback error res)))))
     else (obj, [], Returned (Rejected (not_a_function ''listTags''))))"

text \<open>
  \<^verbatim>\<open>Freefare.listDevices\<close>. The native \<^verbatim>\<open>listDevices\<close> is not in the repository's
  files: \<open>reported\<close> is what it hands its callback, an error value and the native devices.
  \<^verbatim>\<open>new Device(cppDevice)\<close> keeps the native object and, as \<^verbatim>\<open>name\<close>, what its
  \<^verbatim>\<open>getConnstring()\<close> returns (a method \<^verbatim>\<open>Device::Init\<close> registers).
\<close>

definition GetConnstring :: "Device \<Rightarrow> string" where
  "GetConnstring obj = connstring obj"

definition new_Device :: "Device \<Rightarrow> Device \<times> string" where
  "new_Device cppDevice = (cppDevice, GetConnstring cppDevice)"

definition Freefare_listDevices ::
    "v8_value \<times> Device list \<Rightarrow> (Device \<times> string) list completion outcome" where
  "Freefare_listDevices reported =
    (let (error, deviceList) = reported;
         res = map new_Device deviceList
     in Returned (settle
          ((if truthy error then [reject (Error ''Unknown error during device list'')] else [])
           @ [resolve res])))"

text \<open>
  The methods of \<^verbatim>\<open>class Tag\<close> return what the native method returns, at once.
\<close>

definition Tag_getType :: "MifareTag \<Rightarrow> string outcome" where
  "Tag_getType cppTag =
    (if has_method Tag_Init ''getTagType'' then Returned (GetTagType cppTag)
     else Thrown (not_a_function ''getTagType''))"

definition Tag_getFriendlyName :: "MifareTag \<Rightarrow> string outcome" where
  "Tag_getFriendlyName cppTag =
    (if has_method Tag_Init ''getTagFriendlyName'' then Returned (GetTagFriendlyName cppTag)
     else Thrown (not_a_function ''getTagFriendlyName''))"

definition Tag_getUID :: "MifareTag \<Rightarrow> string outcome" where
  "Tag_getUID cppTag =
    (if has_method Tag_Init ''getTagUID'' then Returned (GetTagUID cppTag)
     else Thrown (not_a_function ''getTagUID''))"

text \<open>
  Every other wrapper of a tag class has one shape:
  \<^verbatim>\<open>return new Promise((resolve, reject) => { this[cppObj].method(..., callback); })\<close>
  with the callback above. \<open>reported\<close> is what the native method hands the callback: its
  error value, and the value the wrapper resolves with.
\<close>

definition promise_of :: "string list \<Rightarrow> string \<Rightarrow> v8_value \<times> 'a \<Rightarrow> 'a completion outcome" where
  "promise_of prototype method reported =
    (if has_method prototype method then
       (let (error, result) = reported in Returned (settle (callback error result)))
     else Returned (Rejected (not_a_function method)))"

text \<open>
  The wrappers of \<^verbatim>\<open>class MifareUltralightTag\<close>, \<^verbatim>\<open>class MifareClassicTag\<close> and
  \<^verbatim>\<open>class MifareDesfireTag\<close>. Their native methods are registered by \<^verbatim>\<open>Tag::Init\<close>
  but defined in files that are not in the repository: each is a parameter, named as the
  method, giving what the method hands its callback for the arguments it is called with.
  A failed \<^verbatim>\<open>assert\<close> throws an AssertionError with the given message before the promise
  is made.
\<close>

definition pages_message :: string where
  "pages_message = ''Mifare Ultralight tag have only 16 pages (0 to 15)''"

definition length_message :: string where
  "length_message = ''Length of page on Mifare Ultralight tag is 4 bytes''"

definition MifareUltralightTag_open :: "v8_value \<Rightarrow> unit completion outcome" where
  "MifareUltralightTag_open mifareUltralight_connect =
    promise_of Tag_Init ''mifareUltralight_connect'' (mifareUltralight_connect, ())"

definition MifareUltralightTag_close :: "v8_value \<Rightarrow> unit completion outcome" where
  "MifareUltralightTag_close mifareUltralight_disconnect =
    promise_of Tag_Init ''mifareUltralight_disconnect'' (mifareUltralight_disconnect, ())"

definition MifareUltralightTag_read ::
    "(int \<Rightarrow> v8_value \<times> u8 list) \<Rightarrow> int \<Rightarrow> native_call list \<times> u8 list completion outcome" where
  "MifareUltralightTag_read mifareUltralight_read page =
    (if \<not> page < 16 then ([], Thrown (AssertionError pages_message))
     else if \<not> has_method Tag_Init ''mifareUltralight_read''
     then ([], Returned (Rejected (not_a_function ''mifareUltralight_read'')))
     else
       (let (error, result) = mifareUltralight_read page
        in ([Call_mifareUltralight_read page], Returned (settle (callback error result)))))"

definition MifareUltralightTag_write ::
    "(int \<Rightarrow> u8 list \<Rightarrow> v8_value) \<Rightarrow> int \<Rightarrow> u8 list \<Rightarrow>
       native_call list \<times> unit completion outcome" where
  "MifareUltralightTag_write mifareUltralight_write page buf =
    (if \<not> page < 16 then ([], Thrown (AssertionError pages_message))
     else if \<not> length buf = 4 then ([], Thrown (AssertionError length_message))
     else if \<not> has_method Tag_Init ''mifareUltralight_write''
     then ([], Returned (Rejected (not_a_function ''mifareUltralight_write'')))
     else
       (let error = mifareUltralight_write page buf
        in ([Call_mifareUltralight_write page buf], Returned (settle (callback error ())))))"

definition MifareClassicTag_open :: "v8_value \<Rightarrow> unit completion outcome" where
  "MifareClassicTag_open mifareClassic_connect =
    promise_of Tag_Init ''mifareClassic_connect'' (mifareClassic_connect, ())"

definition MifareClassicTag_close :: "v8_value \<Rightarrow> unit completion outcome" where
  "MifareClassicTag_close mifareClassic_disconnect =
    promise_of Tag_Init ''mifareClassic_disconnect'' (mifareClassic_disconnect, ())"

definition MifareClassicTag_authenticate ::
    "(int \<Rightarrow> u8 list \<Rightarrow> string \<Rightarrow> v8_value \<times> 'r) \<Rightarrow> int \<Rightarrow> u8 list \<Rightarrow> string \<Rightarrow>
       'r completion outcome" where
  "MifareClassicTag_authenticate mifareClassic_authenticate block key keyType =
    promise_of Tag_Init ''mifareClassic_authenticate''
      (mifareClassic_authenticate block key keyType)"

text \<open>\<^verbatim>\<open>read(block, key, keyType)\<close> passes the block alone to the native method.\<close>

definition MifareClassicTag_read ::
    "(int \<Rightarrow> v8_value \<times> 'r) \<Rightarrow> int \<Rightarrow> u8 list \<Rightarrow> string \<Rightarrow> 'r completion outcome" where
  "MifareClassicTag_read mifareClassic_read block key keyType =
    promise_of Tag_Init ''mifareClassic_read'' (mifareClassic_read block)"

definition MifareClassicTag_write ::
    "(int \<Rightarrow> u8 list \<Rightarrow> v8_value) \<Rightarrow> int \<Rightarrow> u8 list \<Rightarrow> unit completion outcome" where
  "MifareClassicTag_write mifareClassic_write block data =
    promise_of Tag_Init ''mifareClassic_write'' (mifareClassic_write block data, ())"

definition MifareClassicTag_initValue ::
    "(int \<Rightarrow> int \<Rightarrow> string \<Rightarrow> v8_value) \<Rightarrow> int \<Rightarrow> int \<Rightarrow> string \<Rightarrow> unit completion outcome" where
  "MifareClassicTag_initValue mifareClassic_initValue block val adr =
    promise_of Tag_Init ''mifareClassic_initValue'' (mifareClassic_initValue block val adr, ())"

text \<open>\<^verbatim>\<open>readValue\<close> resolves with the object \<^verbatim>\<open>{value, adr}\<close>, a pair here.\<close>

definition MifareClassicTag_readValue ::
    "(int \<Rightarrow> v8_value \<times> 'v \<times> 'a) \<Rightarrow> int \<Rightarrow> ('v \<times> 'a) completion outcome" where
  "MifareClassicTag_readValue mifareClassic_readValue block =
    (let (error, val, adr) = mifareClassic_readValue block
     in promise_of Tag_Init ''mifareClassic_readValue'' (error, (val, adr)))"

definition MifareClassicTag_incrementValue ::
    "(int \<Rightarrow> int \<Rightarrow> v8_value) \<Rightarrow> int \<Rightarrow> int \<Rightarrow> unit completion outcome" where
  "MifareClassicTag_incrementValue mifareClassic_increment block amount =
    promise_of Tag_Init ''mifareClassic_increment'' (mifareClassic_increment block amount, ())"

definition MifareClassicTag_decrementValue ::
    "(int \<Rightarrow> int \<Rightarrow> v8_value) \<Rightarrow> int \<Rightarrow> int \<Rightarrow> unit completion outcome" where
  "MifareClassicTag_decrementValue mifareClassic_decrement block amount =
    promise_of Tag_Init ''mifareClassic_decrement'' (mifareClassic_decrement block amount, ())"

definition MifareClassicTag_restoreValue ::
    "(int \<Rightarrow> v8_value) \<Rightarrow> int \<Rightarrow> unit completion outcome" where
  "MifareClassicTag_restoreValue mifareClassic_restore block =
    promise_of Tag_Init ''mifareClassic_restore'' (mifareClassic_restore block, ())"

definition MifareClassicTag_transferValue ::
    "(int \<Rightarrow> v8_value) \<Rightarrow> int \<Rightarrow> unit completion outcome" where
  "MifareClassicTag_transferValue mifareClassic_transfer block =
    promise_of Tag_Init ''mifareClassic_transfer'' (mifareClassic_transfer block, ())"

definition MifareDesfireTag_open :: "v8_value \<Rightarrow> unit completion outcome" where
  "MifareDesfireTag_open mifareDesfire_connect =
    promise_of Tag_Init ''mifareDesfire_connect'' (mifareDesfire_connect, ())"

definition MifareDesfireTag_close :: "v8_value \<Rightarrow> unit completion outcome" where
  "MifareDesfireTag_close mifareDesfire_disconnect =
    promise_of Tag_Init ''mifareDesfire_disconnect'' (mifareDesfire_disconnect, ())"

definition MifareDesfireTag_authenticateDES ::
    "(int \<Rightarrow> u8 list \<Rightarrow> v8_value) \<Rightarrow> int \<Rightarrow> u8 list \<Rightarrow> unit completion outcome" where
  "MifareDesfireTag_authenticateDES mifareDesfire_authenticate_des KeyNum key =
    promise_of Tag_Init ''mifareDesfire_authenticate_des''
      (mifareDesfire_authenticate_des KeyNum key, ())"

definition MifareDesfireTag_authenticate3DES ::
    "(int \<Rightarrow> u8 list \<Rightarrow> v8_value) \<Rightarrow> int \<Rightarrow> u8 list \<Rightarrow> unit completion outcome" where
  "MifareDesfireTag_authenticate3DES mifareDesfire_authenticate_3des KeyNum key =
    promise_of Tag_Init ''mifareDesfire_authenticate_3des''
      (mifareDesfire_authenticate_3des KeyNum key, ())"

definition MifareDesfireTag_getApplicationIds :: "v8_value \<times> 'r \<Rightarrow> 'r completion outcome" where
  "MifareDesfireTag_getApplicationIds mifareDesfire_getApplicationIds =
    promise_of Tag_Init ''mifareDesfire_getApplicationIds'' mifareDesfire_getApplicationIds"

definition MifareDesfireTag_selectApplication ::
    "(u8 list \<Rightarrow> v8_value \<times> 'r) \<Rightarrow> u8 list \<Rightarrow> 'r completion outcome" where
  "MifareDesfireTag_selectApplication mifareDesfire_selectApplication aid =
    promise_of Tag_Init ''mifareDesfire_selectApplication'' (mifareDesfire_selectApplication aid)"

definition MifareDesfireTag_getFileIds :: "v8_value \<times> 'r \<Rightarrow> 'r completion outcome" where
  "MifareDesfireTag_getFileIds mifareDesfire_getFileIds =
    promise_of Tag_Init ''mifareDesfire_getFileIds'' mifareDesfire_getFileIds"

definition MifareDesfireTag_read ::
    "(int \<Rightarrow> int \<Rightarrow> int \<Rightarrow> v8_value \<times> 'r) \<Rightarrow> int \<Rightarrow> int \<Rightarrow> int \<Rightarrow> 'r completion outcome" where
  "MifareDesfireTag_read mifareDesfire_read file offset len =
    promise_of Tag_Init ''mifareDesfire_read'' (mifareDesfire_read file offset len)"

definition MifareDesfireTag_write ::
    "(int \<Rightarrow> int \<Rightarrow> int \<Rightarrow> u8 list \<Rightarrow> v8_value) \<Rightarrow> int \<Rightarrow> int \<Rightarrow> int \<Rightarrow> u8 list \<Rightarrow>
       unit completion outcome" where
  "MifareDesfireTag_write mifareDesfire_write file offset len data =
    promise_of Tag_Init ''mifareDesfire_write'' (mifareDesfire_write file offset len data, ())"

text \<open>
  The native methods of tag_ntag21x.cpp. A page argument is read with
  \<^verbatim>\<open>info[i]->Uint32Value()\<close> and passed to a \<^verbatim>\<open>uint8_t\<close> parameter of the worker's
  constructor, which keeps its low eight bits; the write worker copies four bytes of the
  buffer. JavaScript numbers are integers here.
\<close>

definition Uint32Value :: "int \<Rightarrow> 32 word" where
  "Uint32Value v = word_of_int v"

definition Tag_ntag21x_connect :: "'tag freefare \<Rightarrow> 'tag \<Rightarrow> v8_value" where
  "Tag_ntag21x_connect lib tag = ntag21x_connectWorker lib tag"

definition Tag_ntag21x_disconnect :: "'tag freefare \<Rightarrow> 'tag \<Rightarrow> v8_value" where
  "Tag_ntag21x_disconnect lib tag = ntag21x_disconnectWorker lib tag"

definition Tag_ntag21x_read4 ::
    "'tag freefare \<Rightarrow> (nat \<Rightarrow> u8) \<Rightarrow> 'tag \<Rightarrow> int \<Rightarrow> v8_value \<times> u8 list" where
  "Tag_ntag21x_read4 lib mem tag info0 =
    ntag21x_readWorker lib mem tag (ucast (Uint32Value info0))"

definition Tag_ntag21x_fast_read ::
    "'tag freefare \<Rightarrow> (nat \<Rightarrow> u8) \<Rightarrow> 'tag \<Rightarrow> int \<Rightarrow> int \<Rightarrow> v8_value \<times> u8 list" where
  "Tag_ntag21x_fast_read lib mem tag info0 info1 =
    ntag21x_fastReadWorker lib mem tag (ucast (Uint32Value info0)) (ucast (Uint32Value info1))"

definition Tag_ntag21x_write :: "'tag freefare \<Rightarrow> 'tag \<Rightarrow> int \<Rightarrow> u8 list \<Rightarrow> v8_value" where
  "Tag_ntag21x_write lib tag info0 info1 =
    ntag21x_writeWorker lib tag (ucast (Uint32Value info0)) (take 4 info1)"

definition Tag_ntag21x_get_subtype :: "'tag freefare \<Rightarrow> 'tag \<Rightarrow> v8_value \<times> v8_value" where
  "Tag_ntag21x_get_subtype lib tag = ntag21x_getSubTypeWorker lib tag"

text \<open>
  The wrappers of \<^verbatim>\<open>class NTag21xTag\<close>. Each calls a method \<^verbatim>\<open>ntag21x_...\<close> of the
  wrapped native tag; the method is looked up among those \<^verbatim>\<open>Tag::Init\<close> registers.
\<close>

definition NTag21xTag_open :: "'tag freefare \<Rightarrow> 'tag \<Rightarrow> unit completion outcome" where
  "NTag21xTag_open lib tag =
    promise_of Tag_Init ''ntag21x_connect'' (Tag_ntag21x_connect lib tag, ())"

definition NTag21xTag_close :: "'tag freefare \<Rightarrow> 'tag \<Rightarrow> unit completion outcome" where
  "NTag21xTag_close lib tag =
    promise_of Tag_Init ''ntag21x_disconnect'' (Tag_ntag21x_disconnect lib tag, ())"

definition NTag21xTag_read ::
    "'tag freefare \<Rightarrow> (nat \<Rightarrow> u8) \<Rightarrow> 'tag \<Rightarrow> int \<Rightarrow> u8 list completion outcome" where
  "NTag21xTag_read lib mem tag page =
    promise_of Tag_Init ''ntag21x_read4'' (Tag_ntag21x_read4 lib mem tag page)"

definition NTag21xTag_fastRead ::
    "'tag freefare \<Rightarrow> (nat \<Rightarrow> u8) \<Rightarrow> 'tag \<Rightarrow> int \<Rightarrow> int \<Rightarrow> u8 list completion outcome" where
  "NTag21xTag_fastRead lib mem tag startPage endPage =
    promise_of Tag_Init ''ntag21x_fast_read'' (Tag_ntag21x_fast_read lib mem tag startPage endPage)"

definition NTag21xTag_write ::
    "'tag freefare \<Rightarrow> 'tag \<Rightarrow> int \<Rightarrow> u8 list \<Rightarrow> unit completion outcome" where
  "NTag21xTag_write lib tag page buf =
    (if \<not> length buf = 4 then Thrown (AssertionError length_message)
     else promise_of Tag_Init ''ntag21x_write'' (Tag_ntag21x_write lib tag page buf, ()))"

definition NTag21xTag_getSubType :: "'tag freefare \<Rightarrow> 'tag \<Rightarrow> v8_value completion outcome" where
  "NTag21xTag_getSubType lib tag =
    promise_of Tag_Init ''ntag21x_get_subtype'' (Tag_ntag21x_get_subtype lib tag)"

subsection \<open>What a caller observes\<close>

text \<open>
  An operation completes when it returns a promise that settles, with a result or with an
  error. It fails with a code of common.h when the exception it throws or rejects with is
  the Error the callbacks build from that code.
\<close>

text \<open>
  The promise that settles once from what a native callback reported: rejected with the
  Error naming the reported code when that is a number other than 0, resolved with the
  result otherwise.
\<close>

definition settles :: "v8_value \<Rightarrow> 'a \<Rightarrow> 'a completion outcome" where
  "settles error result =
    Returned (if truthy error then Rejected (unknown_error error) else Resolved result)"

fun completes :: "'a completion outcome \<Rightarrow> bool" where
  "completes (Returned (Resolved _)) = True"
| "completes (Returned (Rejected _)) = True"
| "completes _ = False"

fun carries_code :: "int \<Rightarrow> js_exception \<Rightarrow> bool" where
  "carries_code c (Error m) = (m = ''Unknown error ('' @ to_string (Number c) @ '')'')"
| "carries_code c _ = False"

fun fails_with :: "int \<Rightarrow> 'a completion outcome \<Rightarrow> bool" where
  "fails_with c (Thrown e) = carries_code c e"
| "fails_with c (Returned (Rejected e)) = carries_code c e"
| "fails_with c _ = False"

subsection \<open>Concrete readers, cards and tags\<close>

text \<open>
  A library that reads a tag out of a table of its pages and never fails; the tag whose
  page \<open>n\<close> holds the bytes \<open>n, 1, 2, 3\<close>; memory holding zeros.
\<close>

definition page_table :: "(u8 \<Rightarrow> u8 list) freefare" where
  "page_table =
    \<lparr>ntag21x_connect = (\<lambda>tag. 0),
     ntag21x_disconnect = (\<lambda>tag. 0),
     ntag21x_read4 = (\<lambda>tag page. (0, tag page)),
     ntag21x_fast_read =
       (\<lambda>tag s e. (0, concat (map (\<lambda>i. tag (of_nat i)) [unat s..<Suc (unat e)]))),
     ntag21x_write = (\<lambda>tag page data. 0),
     ntag21x_get_subtype = (\<lambda>tag. NTAG_215)\<rparr>"

definition numbered_pages :: "u8 \<Rightarrow> u8 list" where
  "numbered_pages page = [page, 1, 2, 3]"

definition zeroed :: "nat \<Rightarrow> u8" where
  "zeroed i = 0"

text \<open>
  Three cards, a reader that sees given cards, and one that cannot be opened and gives no
  array of tags.
\<close>

definition classic_card :: MifareTag where
  "classic_card =
    \<lparr>freefare_get_tag_type = CLASSIC_1K,
     freefare_get_tag_friendly_name = ''Mifare Classic 1k'',
     freefare_get_tag_uid = ''a1b2c3d4''\<rparr>"

definition ntag_card :: MifareTag where
  "ntag_card =
    \<lparr>freefare_get_tag_type = NTAG_21x,
     freefare_get_tag_friendly_name = ''NTAG21x'',
     freefare_get_tag_uid = ''04a1b2c3d4e5f6''\<rparr>"

definition ultralight_c_card :: MifareTag where
  "ultralight_c_card =
    \<lparr>freefare_get_tag_type = ULTRALIGHT_C,
     freefare_get_tag_friendly_name = ''Mifare UltraLightC'',
     freefare_get_tag_uid = ''04112233445566''\<rparr>"

definition reader_with :: "MifareTag list \<Rightarrow> driver" where
  "reader_with cards =
    \<lparr>nfc_open = (\<lambda>c. Some 1), nfc_abort_command = (\<lambda>d. 0),
     freefare_get_tags = (\<lambda>d. Some cards)\<rparr>"

definition unplugged :: driver where
  "unplugged =
    \<lparr>nfc_open = (\<lambda>c. None), nfc_abort_command = (\<lambda>d. - 7),
     freefare_get_tags = (\<lambda>d. None)\<rparr>"

definition opened_device :: Device where
  "opened_device = \<lparr>connstring = ''pn532_uart:/dev/ttyUSB0'', device = Some 1\<rparr>"

definition closed_device :: Device where
  "closed_device = \<lparr>connstring = ''pn532_uart:/dev/ttyUSB0'', device = None\<rparr>"

text \<open>
  Native Ultralight methods: one that reads zeros, one whose read fails with -1, one that
  accepts every write.
\<close>

definition blank_pages :: "int \<Rightarrow> v8_value \<times> u8 list" where
  "blank_pages page = (Number 0, [0, 0, 0, 0])"

definition failing_pages :: "int \<Rightarrow> v8_value \<times> u8 list" where
  "failing_pages page = (Number (- 1), [0, 0, 0, 0])"

definition accept_write :: "int \<Rightarrow> u8 list \<Rightarrow> v8_value" where
  "accept_write page buf = Number 0"

section \<open>Properties\<close>

subsection \<open>Error translation\<close>

lemmas NFF_ERROR_defs =
  NFF_ERROR_LIBNFC_UNKNOWN_def NFF_ERROR_LIBNFC_EIO_def NFF_ERROR_LIBNFC_EINVARG_def
  NFF_ERROR_LIBNFC_EDEVNOTSUPP_def NFF_ERROR_LIBNFC_ENOTSUCHDEV_def
  NFF_ERROR_LIBNFC_EOVFLOW_def NFF_ERROR_LIBNFC_ETIMEOUT_def NFF_ERROR_LIBNFC_EOPABORTED_def
  NFF_ERROR_LIBNFC_ENOTIMPL_def NFF_ERROR_LIBNFC_ETGRELEASED_def NFF_ERROR_LIBNFC_ERFTRANS_def
  NFF_ERROR_LIBNFC_EMFCAUTHFAIL_def NFF_ERROR_LIBNFC_ESOFT_def NFF_ERROR_LIBNFC_ECHIP_def

lemma taxonomy_distinct: "distinct taxonomy"
  by (simp add: taxonomy_def NFF_ERROR_defs)

lemma LIBNFC_ERROR_TO_NFF_member: "LIBNFC_ERROR_TO_NFF nfc error \<in> set taxonomy"
  by (simp add: LIBNFC_ERROR_TO_NFF_def taxonomy_def)

lemma LIBNFC_ERROR_TO_NFF_unmapped:
  "error \<notin> set (mapped_codes nfc) \<Longrightarrow> LIBNFC_ERROR_TO_NFF nfc error = NFF_ERROR_LIBNFC_UNKNOWN"
  by (simp add: LIBNFC_ERROR_TO_NFF_def mapped_codes_def)

lemma LIBNFC_ERROR_TO_NFF_mapped:
  "error \<in> set (mapped_codes nfc) \<Longrightarrow> LIBNFC_ERROR_TO_NFF nfc error \<noteq> NFF_ERROR_LIBNFC_UNKNOWN"
  unfolding LIBNFC_ERROR_TO_NFF_def mapped_codes_def NFF_ERROR_defs
  by (simp split: if_splits) blast

text \<open>
  C2. The translation is a total function into the taxonomy: every native code is sent to
  one of the fourteen members, which are pairwise different, and a native code outside
  the thirteen the macro tests is sent to Unknown (and only such a code is).
\<close>

theorem error_translation_total:
  "LIBNFC_ERROR_TO_NFF nfc error \<in> set taxonomy \<and> distinct taxonomy \<and> length taxonomy = 14 \<and>
   (error \<notin> set (mapped_codes nfc) \<longleftrightarrow> LIBNFC_ERROR_TO_NFF nfc error = NFF_ERROR_LIBNFC_UNKNOWN)"
  using LIBNFC_ERROR_TO_NFF_member taxonomy_distinct LIBNFC_ERROR_TO_NFF_unmapped
    LIBNFC_ERROR_TO_NFF_mapped
  by (auto simp: taxonomy_def)

theorem error_translation_total_witness:
  "LIBNFC_ERROR_TO_NFF libnfc_1_7 0 = 100 \<and> 0 \<notin> set (mapped_codes libnfc_1_7) \<and>
   LIBNFC_ERROR_TO_NFF libnfc_1_7 (-6) = 106 \<and> -6 \<in> set (mapped_codes libnfc_1_7)"
  using error_translation_total [of libnfc_1_7 0] error_translation_total [of libnfc_1_7 "-6"]
  by (simp add: LIBNFC_ERROR_TO_NFF_def libnfc_1_7_def mapped_codes_def NFF_ERROR_defs)

subsection \<open>Promises and buffers\<close>

lemma settle_callback:
  "settle (callback error result) =
    (if truthy error then Rejected (unknown_error error) else Resolved result)"
  by (simp add: callback_def)

lemma settle_open_callback:
  "settle (open_callback error) =
    (if truthy error then
       (if error = Number ERROR_OPEN_DEVICE
        then Rejected (Error ''LibNFC failed to open the device'')
        else Rejected (unknown_error error))
     else Resolved ())"
  by (simp add: open_callback_def)

lemma length_malloc: "length (malloc mem n) = n"
  by (simp add: malloc_def)

lemma length_store: "length (store block bytes) = length block"
  by (simp add: store_def)

lemma page_argument: "ucast (Uint32Value (uint page)) = page" for page :: u8
  by (simp add: Uint32Value_def ucast_up_ucast_id is_up)

subsection \<open>The prototypes\<close>

lemma Device_Init_methods:
  "has_method Device_Init ''open''" "has_method Device_Init ''listTags''"
  "has_method Device_Init ''abort''" "has_method Device_Init ''getConnstring''"
  "\<not> has_method Device_Init ''close''"
  by (simp_all add: has_method_def Device_Init_def)

lemma Tag_Init_getters:
  "has_method Tag_Init ''getTagType''" "has_method Tag_Init ''getTagFriendlyName''"
  "has_method Tag_Init ''getTagUID''"
  by (simp_all add: has_method_def Tag_Init_def)

lemma Tag_Init_mifareUltralight:
  "has_method Tag_Init ''mifareUltralight_connect''"
  "has_method Tag_Init ''mifareUltralight_disconnect''"
  "has_method Tag_Init ''mifareUltralight_read''"
  "has_method Tag_Init ''mifareUltralight_write''"
  by (simp_all add: has_method_def Tag_Init_def)

lemma Tag_Init_mifareClassic:
  "has_method Tag_Init ''mifareClassic_connect''"
  "has_method Tag_Init ''mifareClassic_disconnect''"
  "has_method Tag_Init ''mifareClassic_authenticate''"
  "has_method Tag_Init ''mifareClassic_read''"
  "has_method Tag_Init ''mifareClassic_write''"
  "has_method Tag_Init ''mifareClassic_initValue''"
  "has_method Tag_Init ''mifareClassic_readValue''"
  "has_method Tag_Init ''mifareClassic_increment''"
  "has_method Tag_Init ''mifareClassic_decrement''"
  "has_method Tag_Init ''mifareClassic_restore''"
  "has_method Tag_Init ''mifareClassic_transfer''"
  by (simp_all add: has_method_def Tag_Init_def)

lemma Tag_Init_mifareDesfire:
  "has_method Tag_Init ''mifareDesfire_connect''"
  "has_method Tag_Init ''mifareDesfire_disconnect''"
  "has_method Tag_Init ''mifareDesfire_authenticate_des''"
  "has_method Tag_Init ''mifareDesfire_authenticate_3des''"
  "has_method Tag_Init ''mifareDesfire_getApplicationIds''"
  "has_method Tag_Init ''mifareDesfire_selectApplication''"
  "has_method Tag_Init ''mifareDesfire_getFileIds''"
  "has_method Tag_Init ''mifareDesfire_read''"
  "has_method Tag_Init ''mifareDesfire_write''"
  by (simp_all add: has_method_def Tag_Init_def)

lemma Tag_Init_ntag21x:
  "\<not> has_method Tag_Init ''ntag21x_connect''"
  "\<not> has_method Tag_Init ''ntag21x_disconnect''"
  "\<not> has_method Tag_Init ''ntag21x_read4''"
  "\<not> has_method Tag_Init ''ntag21x_fast_read''"
  "\<not> has_method Tag_Init ''ntag21x_write''"
  "\<not> has_method Tag_Init ''ntag21x_get_subtype''"
  by (simp_all add: has_method_def Tag_Init_def)

lemma promise_of_registered:
  "has_method prototype method \<Longrightarrow>
   promise_of prototype method reported = settles (fst reported) (snd reported)"
  by (simp add: promise_of_def settles_def settle_callback case_prod_beta)

lemma promise_of_unregistered:
  "\<not> has_method prototype method \<Longrightarrow>
   promise_of prototype method reported = Returned (Rejected (not_a_function method))"
  by (simp add: promise_of_def)

subsection \<open>The extended paged tag\<close>

lemma no_pages_nat:
  fixes s m :: u8
  assumes "s \<le> m"
  shows "nat ((uint m - uint s + 1) * 4) = 4 * (unat m - unat s + 1)"
proof -
  from assms have le: "unat s \<le> unat m" by (simp add: word_le_nat_alt)
  have "(uint m - uint s + 1) * 4 = (int (unat m) - int (unat s) + 1) * 4" by simp
  also from le have "\<dots> = int (4 * (unat m - unat s + 1))" by simp
  finally show ?thesis by (simp only: nat_int)
qed

lemma normalised_end: "(if s > e then s else e) = max s e" for s e :: u8
  by (auto simp: max_def)

lemma fastRead_Execute_fields:
  "ntag21x_fastReadWorker_Execute lib mem tag s e =
    (max s e, 4 * (unat (max s e) - unat s + 1),
     store (malloc mem (4 * (unat (max s e) - unat s + 1)))
       (snd (ntag21x_fast_read lib tag s (max s e))),
     fst (ntag21x_fast_read lib tag s (max s e)))"
proof -
  have le: "s \<le> max s e" by simp
  show ?thesis
    unfolding ntag21x_fastReadWorker_Execute_def normalised_end Let_def no_pages_nat [OF le]
    by (simp add: case_prod_beta)
qed

lemma fastReadWorker_buffer:
  "ntag21x_fastReadWorker lib mem tag s e =
    (Number (fst (ntag21x_fast_read lib tag s (max s e))),
     store (malloc mem (4 * (unat (max s e) - unat s + 1)))
       (snd (ntag21x_fast_read lib tag s (max s e))))"
  by (simp add: ntag21x_fastReadWorker_def fastRead_Execute_fields CopyBuffer_def length_store
      length_malloc)

lemma readWorker_buffer:
  "ntag21x_readWorker lib mem tag page =
    (Number (fst (ntag21x_read4 lib tag page)),
     store (malloc mem 4) (snd (ntag21x_read4 lib tag page)))"
  by (simp add: ntag21x_readWorker_def CopyBuffer_def length_store length_malloc
      case_prod_beta)

text \<open>
  The worker does treat an inverted range as the range of the one page \<open>startPage\<close>.
\<close>

lemma fastReadWorker_inverted_range:
  assumes "endPage < startPage"
  shows "ntag21x_fastReadWorker_Execute lib mem tag startPage endPage =
           ntag21x_fastReadWorker_Execute lib mem tag startPage startPage"
    and "ntag21x_fastReadWorker lib mem tag startPage endPage =
           (Number (fst (ntag21x_fast_read lib tag startPage startPage)),
            store (malloc mem 4) (snd (ntag21x_fast_read lib tag startPage startPage)))"
proof -
  from assms have m: "max startPage endPage = startPage" by (auto simp: max_def)
  show "ntag21x_fastReadWorker_Execute lib mem tag startPage endPage =
          ntag21x_fastReadWorker_Execute lib mem tag startPage startPage"
    by (simp add: fastRead_Execute_fields m)
  show "ntag21x_fastReadWorker lib mem tag startPage endPage =
          (Number (fst (ntag21x_fast_read lib tag startPage startPage)),
           store (malloc mem 4) (snd (ntag21x_fast_read lib tag startPage startPage)))"
    by (simp add: fastReadWorker_buffer m)
qed

text \<open>
  C5. A fast read of an inverted range is meant to succeed as the read of the one page
  \<open>startPage\<close>, and the worker is written to do so. The wrapper never reaches it:
  \<^verbatim>\<open>Tag::Init\<close> registers no method named \<^verbatim>\<open>ntag21x_...\<close>, so
  \<^verbatim>\<open>this[cppObj].ntag21x_fast_read\<close> is undefined and \<^verbatim>\<open>fastRead(5, 3)\<close> rejects with a
  TypeError, as \<^verbatim>\<open>read(5)\<close> does with another; neither returns a page. Had the native
  methods been reached, both would have reported the page 5 of the tag.
\<close>

theorem fastRead_not_registered:
  "NTag21xTag_fastRead page_table zeroed numbered_pages 5 3 =
     Returned (Rejected (TypeError ''ntag21x_fast_read is not a function'')) \<and>
   NTag21xTag_read page_table zeroed numbered_pages 5 =
     Returned (Rejected (TypeError ''ntag21x_read4 is not a function'')) \<and>
   Tag_ntag21x_fast_read page_table zeroed numbered_pages 5 3 = (Number 0, [5, 1, 2, 3]) \<and>
   Tag_ntag21x_read4 page_table zeroed numbered_pages 5 = (Number 0, [5, 1, 2, 3])"
  by (simp add: NTag21xTag_fastRead_def NTag21xTag_read_def promise_of_unregistered
      Tag_Init_ntag21x not_a_function_def Tag_ntag21x_fast_read_def Tag_ntag21x_read4_def
      Uint32Value_def fastReadWorker_buffer readWorker_buffer page_table_def numbered_pages_def
      store_def malloc_def max_def)

text \<open>
  C9. The buffer a fast read delivers has \<open>4 * (max startPage endPage' - startPage + 1)\<close>
  bytes, where \<open>endPage' = max startPage endPage\<close>: \<open>4 * (endPage - startPage + 1)\<close>
  for \<open>startPage \<le> endPage\<close>, and 4 for an inverted range.
\<close>

theorem fastRead_buffer_length:
  "length (snd (ntag21x_fastReadWorker lib mem tag startPage endPage)) =
     4 * (unat (max startPage (max startPage endPage)) - unat startPage + 1) \<and>
   (startPage \<le> endPage \<longrightarrow>
     length (snd (ntag21x_fastReadWorker lib mem tag startPage endPage)) =
       4 * (unat endPage - unat startPage + 1)) \<and>
   (endPage < startPage \<longrightarrow>
     length (snd (ntag21x_fastReadWorker lib mem tag startPage endPage)) = 4)"
  by (auto simp: fastReadWorker_buffer length_store length_malloc max_def)

theorem fastRead_buffer_length_witness:
  "(3::u8) \<le> 5 \<and>
   length (snd (ntag21x_fastReadWorker page_table zeroed numbered_pages 3 5)) = 12 \<and>
   length (snd (ntag21x_fastReadWorker page_table zeroed numbered_pages 5 3)) = 4"
  using fastRead_buffer_length [of page_table zeroed numbered_pages 3 5]
    fastRead_buffer_length [of page_table zeroed numbered_pages 5 3]
  by simp

text \<open>
  C10. The completion of \<^verbatim>\<open>getSubType\<close> carries the error code 0 and a subtype among
  213, 215, 216 and 0, which is 0 exactly when the native subtype is none of
  \<open>NTAG_213\<close>, \<open>NTAG_215\<close>, \<open>NTAG_216\<close>.
\<close>

theorem getSubType_completion:
  "\<exists>v. ntag21x_getSubTypeWorker lib tag = (Number 0, Number v) \<and> v \<in> {213, 215, 216, 0} \<and>
       (v = 0 \<longleftrightarrow> ntag21x_get_subtype lib tag \<notin> {NTAG_213, NTAG_215, NTAG_216})"
  by (cases "ntag21x_get_subtype lib tag") (simp_all add: ntag21x_getSubTypeWorker_def)

theorem getSubType_completion_witness:
  "ntag21x_getSubTypeWorker page_table numbered_pages = (Number 0, Number 215)"
  using getSubType_completion [of page_table numbered_pages]
  by (simp add: ntag21x_getSubTypeWorker_def page_table_def)

subsection \<open>Enumeration and dispatch\<close>

lemma Device_listTags_result:
  "freefare_get_tags drv (device obj) = Some tags \<Longrightarrow>
   Device_listTags drv obj =
    (obj, [Call_freefare_get_tags (device obj)],
     Returned (Resolved (map (\<lambda>cppTag. tag_class (GetTagType cppTag) cppTag) tags)))"
  by (simp add: Device_listTags_def Device_Init_methods ListTagsWorker_def Let_def
      settle_callback map_nth)

lemma tag_class_unrecognised:
  "type \<notin> {''MIFARE_CLASSIC_1K'', ''MIFARE_CLASSIC_4K'', ''MIFARE_DESFIRE'',
      ''MIFARE_ULTRALIGHT'', ''NTAG_21x''} \<Longrightarrow> tag_class type cppTag = Tag cppTag"
  by (simp add: tag_class_def)

lemma GetTagType_unrecognised:
  "freefare_get_tag_type cppTag \<notin> {CLASSIC_1K, CLASSIC_4K, DESFIRE, ULTRALIGHT} \<Longrightarrow>
   tag_class (GetTagType cppTag) cppTag = Tag cppTag"
  by (cases "freefare_get_tag_type cppTag") (simp_all add: GetTagType_def tag_class_def)

text \<open>The rows of the table that the code does follow.\<close>

lemma tag_class_recognised:
  "freefare_get_tag_type cppTag = CLASSIC_1K \<Longrightarrow>
     tag_class (GetTagType cppTag) cppTag = MifareClassicTag cppTag"
  "freefare_get_tag_type cppTag = CLASSIC_4K \<Longrightarrow>
     tag_class (GetTagType cppTag) cppTag = MifareClassicTag cppTag"
  "freefare_get_tag_type cppTag = DESFIRE \<Longrightarrow>
     tag_class (GetTagType cppTag) cppTag = MifareDesfireTag cppTag"
  "freefare_get_tag_type cppTag = ULTRALIGHT \<Longrightarrow>
     tag_class (GetTagType cppTag) cppTag = MifareUltralightTag cppTag"
  by (simp_all add: GetTagType_def tag_class_def)

text \<open>
  C3. The table binds an extended-memory card to the extended paged handler. The code does
  not: \<^verbatim>\<open>Tag::GetTagType\<close> has no case for \<open>NTAG_21x\<close> and answers \<open>Unknown\<close>, so
  the \<^verbatim>\<open>switch\<close> of \<^verbatim>\<open>Device.listTags\<close> reaches its default and wraps the card in
  the generic \<^verbatim>\<open>Tag\<close>, although its case for the string \<open>NTAG_21x\<close> would have built
  an \<^verbatim>\<open>NTag21xTag\<close>. Enumerating a classic card and an extended-memory card:
\<close>

theorem listTags_NTAG_21x_generic:
  "GetTagType ntag_card = ''Unknown'' \<and>
   Device_listTags (reader_with [classic_card, ntag_card]) opened_device =
     (opened_device, [Call_freefare_get_tags (Some 1)],
      Returned (Resolved [MifareClassicTag classic_card, Tag ntag_card])) \<and>
   tag_class ''NTAG_21x'' ntag_card = NTag21xTag ntag_card"
  by (simp add: Device_listTags_result reader_with_def opened_device_def GetTagType_def
      tag_class_def ntag_card_def classic_card_def)

text \<open>
  C4. A card whose type string is none of the five the \<^verbatim>\<open>switch\<close> knows (the empty
  string among them) is wrapped in the generic \<^verbatim>\<open>Tag\<close>, which exposes
  \<^verbatim>\<open>getType\<close>, \<^verbatim>\<open>getFriendlyName\<close> and \<^verbatim>\<open>getUID\<close> only; and whatever cards the
  library reports, enumeration resolves, with one handler for each card, the generic one
  for each card whose native type is none of classic 1k, classic 4k, DESFire and
  Ultralight.
\<close>

theorem unknown_family_generic:
  "(type \<notin> {''MIFARE_CLASSIC_1K'', ''MIFARE_CLASSIC_4K'', ''MIFARE_DESFIRE'',
      ''MIFARE_ULTRALIGHT'', ''NTAG_21x''} \<longrightarrow>
      tag_class type cppTag = Tag cppTag \<and>
      methods (Tag cppTag) = [''getType'', ''getFriendlyName'', ''getUID'']) \<and>
   (freefare_get_tags drv (device obj) = Some tags \<longrightarrow>
     (\<exists>res. snd (snd (Device_listTags drv obj)) = Returned (Resolved res) \<and>
        length res = length tags \<and>
        (\<forall>i < length res.
           freefare_get_tag_type (tags ! i) \<notin> {CLASSIC_1K, CLASSIC_4K, DESFIRE, ULTRALIGHT} \<longrightarrow>
           res ! i = Tag (tags ! i))))"
  by (simp add: tag_class_unrecognised Tag_methods_def Device_listTags_result
      GetTagType_unrecognised)

theorem unknown_family_generic_witness:
  "tag_class '''' ultralight_c_card = Tag ultralight_c_card \<and>
   methods (Tag ultralight_c_card) = [''getType'', ''getFriendlyName'', ''getUID''] \<and>
   freefare_get_tags (reader_with [ultralight_c_card, classic_card]) (device opened_device) =
     Some [ultralight_c_card, classic_card] \<and>
   snd (snd (Device_listTags (reader_with [ultralight_c_card, classic_card]) opened_device)) =
     Returned (Resolved [Tag ultralight_c_card, MifareClassicTag classic_card])"
  using unknown_family_generic
    [of "''''" ultralight_c_card "reader_with [ultralight_c_card, classic_card]" opened_device
      "[ultralight_c_card, classic_card]"]
  by (simp add: Device_listTags_result reader_with_def opened_device_def GetTagType_def
      tag_class_def ultralight_c_card_def classic_card_def)

subsection \<open>Closing a device\<close>

text \<open>
  C7. Closing is meant to succeed, and to do nothing on a device already closed. The code
  does neither: \<^verbatim>\<open>Device::Init\<close> does not put \<^verbatim>\<open>close\<close> on the prototype, so
  \<^verbatim>\<open>Device.close\<close> rejects with a TypeError and calls nothing; and \<^verbatim>\<open>CloseWorker\<close>,
  were it reached, calls \<^verbatim>\<open>nfc_close\<close> on the stored pointer and leaves the pointer in
  place, so that a second close would call \<^verbatim>\<open>nfc_close\<close> on it again.
\<close>

theorem close_not_registered:
  "Device_close opened_device =
     (opened_device, [], Returned (Rejected (TypeError ''close is not a function''))) \<and>
   CloseWorker opened_device = (opened_device, [Call_nfc_close (Some 1)], Null) \<and>
   CloseWorker (fst (CloseWorker opened_device)) =
     (opened_device, [Call_nfc_close (Some 1)], Null)"
  by (simp add: Device_close_def Device_Init_methods not_a_function_def CloseWorker_def
      opened_device_def)

subsection \<open>Completions and assertions\<close>

lemma Freefare_constructor_result:
  "Freefare_constructor init =
    (if init = 0 then Returned ()
     else Thrown (Error (if init = 10 then ''Could not initiate LibNFC''
                         else ''Unknown error during LibNFC initialization'')))"
  by (simp add: Freefare_constructor_def ERROR_INIT_LIBNFC_def)

lemma Freefare_listDevices_result:
  "Freefare_listDevices (error, deviceList) =
    Returned (if truthy error then Rejected (Error ''Unknown error during device list'')
              else Resolved (map new_Device deviceList))"
  by (simp add: Freefare_listDevices_def)

lemma Device_open_result:
  "snd (snd (Device_open drv obj)) =
    Returned (if nfc_open drv (connstring obj) = None
              then Rejected (Error ''LibNFC failed to open the device'') else Resolved ())"
  by (simp add: Device_open_def Device_Init_methods OpenWorker_def Let_def
      settle_open_callback NFF_ERROR_OPEN_DEVICE_def ERROR_OPEN_DEVICE_def)

lemma Device_abort_result:
  "snd (snd (Device_abort drv obj)) = settles (Number (nfc_abort_command drv (device obj))) ()"
  by (simp add: Device_abort_def Device_Init_methods AbortWorker_def Let_def settle_callback
      settles_def)

lemma Tag_getters:
  "Tag_getType cppTag = Returned (GetTagType cppTag)"
  "Tag_getFriendlyName cppTag = Returned (GetTagFriendlyName cppTag)"
  "Tag_getUID cppTag = Returned (GetTagUID cppTag)"
  by (simp_all add: Tag_getType_def Tag_getFriendlyName_def Tag_getUID_def Tag_Init_getters)

lemma MifareUltralightTag_results:
  "MifareUltralightTag_open e1 = settles e1 ()"
  "MifareUltralightTag_close e2 = settles e2 ()"
  "snd (MifareUltralightTag_read rd page) =
     (if page < 16 then settles (fst (rd page)) (snd (rd page))
      else Thrown (AssertionError pages_message))"
  "snd (MifareUltralightTag_write wr page buf) =
     (if \<not> page < 16 then Thrown (AssertionError pages_message)
      else if length buf \<noteq> 4 then Thrown (AssertionError length_message)
      else settles (wr page buf) ())"
  by (simp_all add: MifareUltralightTag_open_def MifareUltralightTag_close_def
      MifareUltralightTag_read_def MifareUltralightTag_write_def promise_of_registered
      Tag_Init_mifareUltralight settles_def settle_callback case_prod_beta)

lemma MifareClassicTag_results:
  "MifareClassicTag_open e3 = settles e3 ()"
  "MifareClassicTag_close e4 = settles e4 ()"
  "MifareClassicTag_authenticate au block key keyType =
     settles (fst (au block key keyType)) (snd (au block key keyType))"
  "MifareClassicTag_read crd block key keyType = settles (fst (crd block)) (snd (crd block))"
  "MifareClassicTag_write cwr block data = settles (cwr block data) ()"
  "MifareClassicTag_initValue iv block val adr = settles (iv block val adr) ()"
  "MifareClassicTag_readValue rv block = settles (fst (rv block)) (snd (rv block))"
  "MifareClassicTag_incrementValue inc block amount = settles (inc block amount) ()"
  "MifareClassicTag_decrementValue dec block amount = settles (dec block amount) ()"
  "MifareClassicTag_restoreValue rst block = settles (rst block) ()"
  "MifareClassicTag_transferValue trf block = settles (trf block) ()"
  by (simp_all add: MifareClassicTag_open_def MifareClassicTag_close_def
      MifareClassicTag_authenticate_def MifareClassicTag_read_def MifareClassicTag_write_def
      MifareClassicTag_initValue_def MifareClassicTag_readValue_def
      MifareClassicTag_incrementValue_def MifareClassicTag_decrementValue_def
      MifareClassicTag_restoreValue_def MifareClassicTag_transferValue_def
      promise_of_registered Tag_Init_mifareClassic case_prod_beta)

lemma MifareDesfireTag_results:
  "MifareDesfireTag_open e5 = settles e5 ()"
  "MifareDesfireTag_close e6 = settles e6 ()"
  "MifareDesfireTag_authenticateDES des KeyNum key = settles (des KeyNum key) ()"
  "MifareDesfireTag_authenticate3DES des3 KeyNum key = settles (des3 KeyNum key) ()"
  "MifareDesfireTag_getApplicationIds aids = settles (fst aids) (snd aids)"
  "MifareDesfireTag_selectApplication sel aid = settles (fst (sel aid)) (snd (sel aid))"
  "MifareDesfireTag_getFileIds fids = settles (fst fids) (snd fids)"
  "MifareDesfireTag_read drd fno offset len =
     settles (fst (drd fno offset len)) (snd (drd fno offset len))"
  "MifareDesfireTag_write dwr fno offset len data = settles (dwr fno offset len data) ()"
  by (simp_all add: MifareDesfireTag_open_def MifareDesfireTag_close_def
      MifareDesfireTag_authenticateDES_def MifareDesfireTag_authenticate3DES_def
      MifareDesfireTag_getApplicationIds_def MifareDesfireTag_selectApplication_def
      MifareDesfireTag_getFileIds_def MifareDesfireTag_read_def MifareDesfireTag_write_def
      promise_of_registered Tag_Init_mifareDesfire)

text \<open>
  As stated, C6 fails: reading page 16 of an Ultralight tag throws out of the call, and no
  promise is returned.
\<close>

theorem read_page_16_throws:
  "MifareUltralightTag_read blank_pages 16 =
     ([], Thrown (AssertionError ''Mifare Ultralight tag have only 16 pages (0 to 15)'')) \<and>
   \<not> completes (snd (MifareUltralightTag_read blank_pages 16))"
  by (simp add: MifareUltralightTag_read_def pages_message_def)

text \<open>
  C6, amended. Every operation that returns a promise, called with arguments that pass
  its assertions, settles the promise once, from what the native callback reports:
  resolved with the result when the reported error is null or 0, rejected otherwise with
  the Error \<open>Unknown error (code)\<close> naming the reported code as it is (for
  \<^verbatim>\<open>Device.open\<close> with \<open>LibNFC failed to open the device\<close>, for \<^verbatim>\<open>listDevices\<close>
  with \<open>Unknown error during device list\<close>). This holds of \<^verbatim>\<open>listDevices\<close>, of
  \<^verbatim>\<open>Device.open\<close> and \<^verbatim>\<open>abort\<close>, of \<^verbatim>\<open>Device.listTags\<close> whenever the library
  returns its array of tags, and of every operation of the Ultralight, Classic and DESFire
  handlers. Raw exceptions do cross the boundary: \<^verbatim>\<open>MifareUltralightTag.read\<close> and
  \<^verbatim>\<open>write\<close> throw an AssertionError out of the call for a page that is not below 16,
  \<^verbatim>\<open>write\<close> of the Ultralight and of the NTAG21x handler for a buffer that is not four
  bytes long, and \<^verbatim>\<open>new Freefare()\<close> throws an Error exactly when initialisation
  reports a code other than 0. \<^verbatim>\<open>getType\<close>, \<^verbatim>\<open>getFriendlyName\<close> and \<^verbatim>\<open>getUID\<close>
  return their string at once.
\<close>

theorem operations_complete_unless_asserting:
  "Freefare_constructor init =
     (if init = 0 then Returned ()
      else Thrown (Error (if init = 10 then ''Could not initiate LibNFC''
                          else ''Unknown error during LibNFC initialization''))) \<and>
   Freefare_listDevices (e0, deviceList) =
     Returned (if truthy e0 then Rejected (Error ''Unknown error during device list'')
               else Resolved (map new_Device deviceList)) \<and>
   snd (snd (Device_open drv obj)) =
     Returned (if nfc_open drv (connstring obj) = None
               then Rejected (Error ''LibNFC failed to open the device'') else Resolved ()) \<and>
   snd (snd (Device_abort drv obj)) = settles (Number (nfc_abort_command drv (device obj))) () \<and>
   (freefare_get_tags drv (device obj) = Some tags \<longrightarrow>
      snd (snd (Device_listTags drv obj)) =
        Returned (Resolved (map (\<lambda>cppTag. tag_class (GetTagType cppTag) cppTag) tags))) \<and>
   Tag_getType cppTag = Returned (GetTagType cppTag) \<and>
   Tag_getFriendlyName cppTag = Returned (GetTagFriendlyName cppTag) \<and>
   Tag_getUID cppTag = Returned (GetTagUID cppTag) \<and>
   MifareUltralightTag_open e1 = settles e1 () \<and>
   MifareUltralightTag_close e2 = settles e2 () \<and>
   snd (MifareUltralightTag_read rd page) =
     (if page < 16 then settles (fst (rd page)) (snd (rd page))
      else Thrown (AssertionError pages_message)) \<and>
   snd (MifareUltralightTag_write wr page buf) =
     (if \<not> page < 16 then Thrown (AssertionError pages_message)
      else if length buf \<noteq> 4 then Thrown (AssertionError length_message)
      else settles (wr page buf) ()) \<and>
   MifareClassicTag_open e3 = settles e3 () \<and>
   MifareClassicTag_close e4 = settles e4 () \<and>
   MifareClassicTag_authenticate au block key keyType =
     settles (fst (au block key keyType)) (snd (au block key keyType)) \<and>
   MifareClassicTag_read crd block key keyType = settles (fst (crd block)) (snd (crd block)) \<and>
   MifareClassicTag_write cwr block data = settles (cwr block data) () \<and>
   MifareClassicTag_initValue iv block val adr = settles (iv block val adr) () \<and>
   MifareClassicTag_readValue rv block = settles (fst (rv block)) (snd (rv block)) \<and>
   MifareClassicTag_incrementValue inc block amount = settles (inc block amount) () \<and>
   MifareClassicTag_decrementValue dec block amount = settles (dec block amount) () \<and>
   MifareClassicTag_restoreValue rst block = settles (rst block) () \<and>
   MifareClassicTag_transferValue trf block = settles (trf block) () \<and>
   MifareDesfireTag_open e5 = settles e5 () \<and>
   MifareDesfireTag_close e6 = settles e6 () \<and>
   MifareDesfireTag_authenticateDES des KeyNum key = settles (des KeyNum key) () \<and>
   MifareDesfireTag_authenticate3DES des3 KeyNum key = settles (des3 KeyNum key) () \<and>
   MifareDesfireTag_getApplicationIds aids = settles (fst aids) (snd aids) \<and>
   MifareDesfireTag_selectApplication sel aid = settles (fst (sel aid)) (snd (sel aid)) \<and>
   MifareDesfireTag_getFileIds fids = settles (fst fids) (snd fids) \<and>
   MifareDesfireTag_read drd fno offset len =
     settles (fst (drd fno offset len)) (snd (drd fno offset len)) \<and>
   MifareDesfireTag_write dwr fno offset len data = settles (dwr fno offset len data) () \<and>
   (length nbuf \<noteq> 4 \<longrightarrow>
      NTag21xTag_write lib tag npage nbuf = Thrown (AssertionError length_message))"
  by (simp add: Freefare_constructor_result Freefare_listDevices_result Device_open_result
      Device_abort_result Device_listTags_result Tag_getters MifareUltralightTag_results
      MifareClassicTag_results MifareDesfireTag_results NTag21xTag_write_def)

theorem operations_complete_unless_asserting_witness:
  "freefare_get_tags (reader_with [ultralight_c_card, classic_card]) (device opened_device) =
     Some [ultralight_c_card, classic_card] \<and>
   snd (snd (Device_listTags (reader_with [ultralight_c_card, classic_card]) opened_device)) =
     Returned (Resolved [Tag ultralight_c_card, MifareClassicTag classic_card]) \<and>
   length [1, 2, 3 :: u8] \<noteq> 4 \<and>
   NTag21xTag_write page_table numbered_pages 5 [1, 2, 3] =
     Thrown (AssertionError ''Length of page on Mifare Ultralight tag is 4 bytes'') \<and>
   snd (MifareUltralightTag_read failing_pages 3) =
     Returned (Rejected (Error ''Unknown error (-1)'')) \<and>
   snd (MifareUltralightTag_read blank_pages 3) = Returned (Resolved [0, 0, 0, 0]) \<and>
   snd (MifareUltralightTag_read blank_pages 16) =
     Thrown (AssertionError ''Mifare Ultralight tag have only 16 pages (0 to 15)'') \<and>
   snd (MifareUltralightTag_write accept_write 3 [1, 2, 3, 4]) = Returned (Resolved ()) \<and>
   snd (MifareUltralightTag_write accept_write 3 [1, 2, 3]) =
     Thrown (AssertionError ''Length of page on Mifare Ultralight tag is 4 bytes'') \<and>
   snd (snd (Device_open unplugged closed_device)) =
     Returned (Rejected (Error ''LibNFC failed to open the device'')) \<and>
   snd (snd (Device_abort unplugged closed_device)) =
     Returned (Rejected (Error ''Unknown error (-7)'')) \<and>
   Freefare_constructor 10 = Thrown (Error ''Could not initiate LibNFC'')"
  using operations_complete_unless_asserting
    [where init = 10 and ?e0.0 = Null and deviceList = "[closed_device]"
       and drv = "reader_with [ultralight_c_card, classic_card]" and obj = opened_device
       and tags = "[ultralight_c_card, classic_card]" and cppTag = classic_card
       and ?e1.0 = Null and ?e2.0 = Null and rd = failing_pages and page = 3
       and wr = accept_write and buf = "[1, 2, 3, 4]"
       and ?e3.0 = Null and ?e4.0 = Null and au = "\<lambda>b k t. (Null, ())" and block = 0
       and key = "[]" and keyType = "[]" and crd = "\<lambda>b. (Null, ())"
       and cwr = "\<lambda>b d. Null" and data = "[]" and iv = "\<lambda>b v a. Null" and val = 0
       and adr = "[]" and rv = "\<lambda>b. (Null, (), ())" and inc = "\<lambda>b a. Null" and amount = 0
       and dec = "\<lambda>b a. Null" and rst = "\<lambda>b. Null" and trf = "\<lambda>b. Null"
       and ?e5.0 = Null and ?e6.0 = Null and des = "\<lambda>n k. Null" and KeyNum = 0
       and ?des3.0 = "\<lambda>n k. Null" and aids = "(Null, ())" and sel = "\<lambda>a. (Null, ())"
       and aid = "[]" and fids = "(Null, ())" and drd = "\<lambda>f off l. (Null, ())" and fno = 0
       and offset = 0 and len = 0 and dwr = "\<lambda>f off l d. Null"
       and nbuf = "[1, 2, 3]" and lib = page_table and tag = numbered_pages and npage = 5]
  by (simp add: reader_with_def opened_device_def GetTagType_def tag_class_def
      ultralight_c_card_def classic_card_def length_message_def pages_message_def
      failing_pages_def blank_pages_def accept_write_def settles_def unknown_error_def
      unplugged_def closed_device_def digit_def Device_open_result Device_abort_result
      MifareUltralightTag_results)

text \<open>
  As stated, C8 fails: the failure for page 16 is an AssertionError, which carries no code
  of the taxonomy, not InvalidArgument. (And the assertion \<^verbatim>\<open>page < 16\<close> lets a
  negative page through to the native method.)
\<close>

theorem read_page_16_not_InvalidArgument:
  "snd (MifareUltralightTag_read blank_pages 16) =
     Thrown (AssertionError ''Mifare Ultralight tag have only 16 pages (0 to 15)'') \<and>
   \<not> fails_with NFF_ERROR_LIBNFC_EINVARG (snd (MifareUltralightTag_read blank_pages 16)) \<and>
   MifareUltralightTag_read blank_pages (- 1) =
     ([Call_mifareUltralight_read (- 1)], Returned (Resolved [0, 0, 0, 0]))"
  by (simp add: MifareUltralightTag_read_def pages_message_def blank_pages_def settle_callback
      Tag_Init_mifareUltralight)

text \<open>
  C8, amended. For every page index of 16 or more, \<^verbatim>\<open>read(page)\<close> and
  \<^verbatim>\<open>write(page, data)\<close> of the simple paged handler fail at once by throwing an
  AssertionError out of the call, before a promise is made, and no native call is made.
\<close>

theorem page_assertion:
  assumes "16 \<le> page"
  shows "MifareUltralightTag_read rd page = ([], Thrown (AssertionError pages_message)) \<and>
         MifareUltralightTag_write wr page buf = ([], Thrown (AssertionError pages_message))"
  using assms by (simp add: MifareUltralightTag_read_def MifareUltralightTag_write_def)

theorem page_assertion_witness:
  "(16::int) \<le> 16 \<and>
   MifareUltralightTag_read blank_pages 16 =
     ([], Thrown (AssertionError ''Mifare Ultralight tag have only 16 pages (0 to 15)'')) \<and>
   MifareUltralightTag_write accept_write 16 [1, 2, 3, 4] =
     ([], Thrown (AssertionError ''Mifare Ultralight tag have only 16 pages (0 to 15)''))"
  using page_assertion [of 16 blank_pages accept_write "[1, 2, 3, 4]"]
  by (simp add: pages_message_def)

end
